theory Spec2Isabelle
  imports Main "HOL-Library.Word"
begin

section \<open>The LDAP database driver (ldap_driver.c)\<close>

text \<open>
  A shallow embedding of the driver that plugs an LDAP-backed record store into the
  host nameserver's database interface. The driver's own state is two kinds of
  reference-counted objects, \<open>ldapdb_t\<close> (the store) and \<open>ldapdbnode_t\<close> (a node), both
  living in blocks of the host's memory context. The model keeps them in two heaps
  (address to object) and keeps a trace of every resource the driver acquires or
  releases through the host library, in the order of the calls.
\<close>

subsection \<open>Result codes, pointers, outcomes\<close>

text \<open>
  \<open>isc_result_t\<close>: the codes the driver names, as symbolic constants (their numbers are
  in the host's headers); \<open>ISC_R_OTHER\<close> stands for every code the driver never names.
\<close>

datatype isc_result_t =
    ISC_R_SUCCESS
  | ISC_R_NOMEMORY
  | ISC_R_NOTFOUND
  | ISC_R_NOTIMPLEMENTED
  | ISC_R_EXISTS
  | DNS_R_PARTIALMATCH
  | DNS_R_NXRRSET
  | DNS_R_CNAME
  | ISC_R_OTHER nat

type_synonym addr = nat

text \<open>
  A pointer-valued struct field. A block that \<open>isc_mem_get\<close> has just returned holds
  indeterminate fields until the code assigns them.
\<close>

datatype ptr = Indeterminate | Null | Ptr addr

text \<open>
  How a call ends: it returns; or a \<open>REQUIRE\<close>/\<open>INSIST\<close> of the host library fails and
  the process is aborted; or it uses an indeterminate or dangling pointer, which C
  leaves undefined.
\<close>

datatype 'a outcome = Returns 'a | Aborts | Undefined

definition and_then :: "'a outcome \<Rightarrow> ('a \<Rightarrow> 'b outcome) \<Rightarrow> 'b outcome" where
  "and_then m f = (case m of Returns v \<Rightarrow> f v | Aborts \<Rightarrow> Aborts | Undefined \<Rightarrow> Undefined)"

text \<open>
  \<open>INSIST(cond)\<close> is a macro of the host library (isc/util.h), not of these sources:
  whether it is compiled in is the parameter \<open>chk\<close> of the functions that use it (the
  library's default is that it is). \<open>INSIST chk cond\<close> tells whether the program goes
  on past the assertion. \<open>REQUIRE\<close> states the contract of a call; a call that breaks
  it is modelled as aborted.
\<close>

definition INSIST :: "bool \<Rightarrow> bool \<Rightarrow> bool" where
  "INSIST chk cond = (if chk then cond else True)"

subsection \<open>Names, record types, record-lists\<close>

type_synonym dns_name_t = string

type_synonym dns_rdatatype_t = "16 word"

definition dns_rdatatype_a :: dns_rdatatype_t where
  "dns_rdatatype_a = 1"

definition dns_rdatatype_cname :: dns_rdatatype_t where
  "dns_rdatatype_cname = 5"

definition dns_rdatatype_mx :: dns_rdatatype_t where
  "dns_rdatatype_mx = 15"

definition dns_rdatatype_any :: dns_rdatatype_t where
  "dns_rdatatype_any = 255"

text \<open>\<open>dns_rdatalist_t\<close>: one record-list, the records of one type under one TTL.\<close>

record dns_rdatalist_t =
  rdtype :: dns_rdatatype_t
  ttl :: "32 word"
  rdata :: "string list"

text \<open>\<open>ldapdb_rdatalist_t\<close>: the linked list of record-lists of one name, head first.\<close>

type_synonym ldapdb_rdatalist_t = "dns_rdatalist_t list"

text \<open>
  \<open>dns_rdataset_t\<close>, as far as the driver touches it: the record-list the set is bound
  to by \<open>dns_rdatalist_tordataset\<close>, if any.
\<close>

type_synonym dns_rdataset_t = "dns_rdatalist_t option"

subsection \<open>The two objects, the heaps, the trace\<close>

definition LDAPDB_MAGIC :: "32 word" where
  "LDAPDB_MAGIC = 0x4C445044"

definition LDAPDBNODE_MAGIC :: "32 word" where
  "LDAPDBNODE_MAGIC = 0x4C44504E"

definition DNS_DB_MAGIC :: "32 word" where
  "DNS_DB_MAGIC = 0x444E5344"

datatype dns_dbtype_t = dns_dbtype_zone | dns_dbtype_cache | dns_dbtype_stub

datatype dns_rdataclass_t = dns_rdataclass_in | dns_rdataclass_chaos | dns_rdataclass_hs

record ldapdb_t =
  common_magic :: "32 word"
  common_impmagic :: "32 word"
  common_rdclass :: dns_rdataclass_t
  common_origin :: dns_name_t
  common_mctx :: ptr
  refs :: "32 word"
  ldap_db :: addr

record ldapdbnode_t =
  magic :: "32 word"
  node_refs :: "32 word"
  owner :: dns_name_t
  rdatalist :: ldapdb_rdatalist_t

text \<open>What the driver asks of the host library and of its collaborators, call by call.\<close>

datatype event =
    Mem_get addr
  | Mem_put addr
  | Mem_attach addr
  | Mem_detach addr
  | Name_dup dns_name_t
  | Name_free dns_name_t
  | Mutex_init addr
  | Mutex_destroy addr
  | Rdatalist_destroy ldapdb_rdatalist_t

record world =
  dbs :: "addr \<rightharpoonup> ldapdb_t"
  nodes :: "addr \<rightharpoonup> ldapdbnode_t"
  trace :: "event list"

definition emit :: "event \<Rightarrow> world \<Rightarrow> world" where
  "emit e w = w\<lparr>trace := trace w @ [e]\<rparr>"

text \<open>
  The answers of the outside world during one call of the driver: each fallible
  external is called at most once per call, so one answer each is enough. The
  resolver \<open>ldapdb_rdatalist_get\<close> (ldap_helper.c) and the instance manager
  \<open>manager_get_ldap_db\<close> (zone_manager.c) are not among the sources: what they answer
  is a parameter, the code and what they leave in their output argument. The
  allocator answers with NULL or with the address of the block.
\<close>

record externals =
  rdatalist_get_res :: "isc_result_t \<times> ldapdb_rdatalist_t"
  mem_get_res :: "addr option"
  refcount_init_res :: isc_result_t
  name_dup_res :: isc_result_t
  name_dupwithoffsets_res :: isc_result_t
  mutex_init_res :: isc_result_t
  manager_get_res :: "isc_result_t \<times> addr"

subsection \<open>The host library, as the driver uses it\<close>

definition isc_mem_get :: "externals \<Rightarrow> ptr \<Rightarrow> world \<Rightarrow> (addr option \<times> world) outcome" where
  "isc_mem_get x mctx w =
     (case mctx of
        Indeterminate \<Rightarrow> Undefined
      | Null \<Rightarrow> Aborts
      | Ptr m \<Rightarrow>
          (case mem_get_res x of
             None \<Rightarrow> Returns (None, w)
           | Some a \<Rightarrow> Returns (Some a, emit (Mem_get a) w)))"

definition isc_mem_put :: "ptr \<Rightarrow> addr \<Rightarrow> world \<Rightarrow> world outcome" where
  "isc_mem_put mctx a w =
     (case mctx of
        Indeterminate \<Rightarrow> Undefined
      | Null \<Rightarrow> Aborts
      | Ptr m \<Rightarrow> Returns (emit (Mem_put a) w))"

definition isc_mem_attach :: "ptr \<Rightarrow> world \<Rightarrow> (ptr \<times> world) outcome" where
  "isc_mem_attach mctx w =
     (case mctx of
        Indeterminate \<Rightarrow> Undefined
      | Null \<Rightarrow> Aborts
      | Ptr m \<Rightarrow> Returns (Ptr m, emit (Mem_attach m) w))"

text \<open>\<open>isc_mem_putanddetach(&ctx, ptr, size)\<close> reads the context out of \<open>*ctxp\<close>.\<close>

definition isc_mem_putanddetach :: "ptr \<Rightarrow> addr \<Rightarrow> world \<Rightarrow> world outcome" where
  "isc_mem_putanddetach ctx a w =
     (case ctx of
        Indeterminate \<Rightarrow> Undefined
      | Null \<Rightarrow> Aborts
      | Ptr m \<Rightarrow> Returns (emit (Mem_detach m) (emit (Mem_put a) w)))"

definition dns_name_dup :: "externals \<Rightarrow> dns_name_t \<Rightarrow> ptr \<Rightarrow> world \<Rightarrow> (isc_result_t \<times> world) outcome" where
  "dns_name_dup x source mctx w =
     (case mctx of
        Indeterminate \<Rightarrow> Undefined
      | Null \<Rightarrow> Aborts
      | Ptr m \<Rightarrow>
          (if name_dup_res x = ISC_R_SUCCESS then Returns (ISC_R_SUCCESS, emit (Name_dup source) w)
           else Returns (name_dup_res x, w)))"

definition dns_name_dupwithoffsets ::
  "externals \<Rightarrow> dns_name_t \<Rightarrow> ptr \<Rightarrow> world \<Rightarrow> (isc_result_t \<times> world) outcome" where
  "dns_name_dupwithoffsets x source mctx w =
     (case mctx of
        Indeterminate \<Rightarrow> Undefined
      | Null \<Rightarrow> Aborts
      | Ptr m \<Rightarrow>
          (if name_dupwithoffsets_res x = ISC_R_SUCCESS
           then Returns (ISC_R_SUCCESS, emit (Name_dup source) w)
           else Returns (name_dupwithoffsets_res x, w)))"

definition dns_name_free :: "dns_name_t \<Rightarrow> ptr \<Rightarrow> world \<Rightarrow> world outcome" where
  "dns_name_free name mctx w =
     (case mctx of
        Indeterminate \<Rightarrow> Undefined
      | Null \<Rightarrow> Aborts
      | Ptr m \<Rightarrow> Returns (emit (Name_free name) w))"

text \<open>
  Modelled from the spec: \<open>ldapdb_rdatalist_destroy\<close> is a function of ldap_helper.c,
  which is not among the sources. The spec gives it as \<open>release(records-by-type)\<close>;
  the release is recorded in the trace.
\<close>

definition ldapdb_rdatalist_destroy :: "ptr \<Rightarrow> ldapdb_rdatalist_t \<Rightarrow> world \<Rightarrow> world outcome" where
  "ldapdb_rdatalist_destroy mctx rdlist w =
     (case mctx of
        Indeterminate \<Rightarrow> Undefined
      | Null \<Rightarrow> Aborts
      | Ptr m \<Rightarrow> Returns (emit (Rdatalist_destroy rdlist) w))"

text \<open>
  \<open>isc_refcount_increment\<close> and \<open>isc_refcount_decrement\<close> on the library's counter; both
  require that the counter was positive before. The driver reads the count through
  \<open>unsigned int refs\<close> (lines 121 and 404): the counter is a 32-bit word, and one more
  than its largest value is 0.
\<close>

definition isc_refcount_increment :: "32 word \<Rightarrow> 32 word outcome" where
  "isc_refcount_increment n = (if 0 < n then Returns (n + 1) else Aborts)"

definition isc_refcount_decrement :: "32 word \<Rightarrow> 32 word outcome" where
  "isc_refcount_decrement n = (if 0 < n then Returns (n - 1) else Aborts)"

text \<open>
  Modelled from the spec: \<open>ldapdb_rdatalist_findrdatatype\<close> is a function of
  ldap_helper.c, which is not among the sources. The spec gives it as
  \<open>find_type(records-by-type, type) -> record-list | NotFound\<close>: the entry of the
  requested type, the first one from the head of the list.
\<close>

definition ldapdb_rdatalist_findrdatatype ::
  "ldapdb_rdatalist_t \<Rightarrow> dns_rdatatype_t \<Rightarrow> isc_result_t \<times> dns_rdatalist_t option" where
  "ldapdb_rdatalist_findrdatatype rdlist t =
     (case List.find (\<lambda>r. rdtype r = t) rdlist of
        None \<Rightarrow> (ISC_R_NOTFOUND, None)
      | Some r \<Rightarrow> (ISC_R_SUCCESS, Some r))"

subsection \<open>Validity of the two objects\<close>

text \<open>
  \<open>REQUIRE(VALID_LDAPDB(ldapdb))\<close>: the pointer is not NULL and the object's
  implementation magic is the driver's. A pointer to a block that has been released
  is dangling.
\<close>

definition require_ldapdb :: "world \<Rightarrow> addr option \<Rightarrow> (addr \<times> ldapdb_t) outcome" where
  "require_ldapdb w db =
     (case db of
        None \<Rightarrow> Aborts
      | Some a \<Rightarrow>
          (case dbs w a of
             None \<Rightarrow> Undefined
           | Some d \<Rightarrow> if common_impmagic d = LDAPDB_MAGIC then Returns (a, d) else Aborts))"

definition require_ldapdbnode :: "world \<Rightarrow> addr option \<Rightarrow> (addr \<times> ldapdbnode_t) outcome" where
  "require_ldapdbnode w node =
     (case node of
        None \<Rightarrow> Aborts
      | Some a \<Rightarrow>
          (case nodes w a of
             None \<Rightarrow> Undefined
           | Some n \<Rightarrow> if magic n = LDAPDBNODE_MAGIC then Returns (a, n) else Aborts))"

text \<open>
  \<open>((ldapdb_t *) db)->common.mctx\<close> where the code reads the field without checking
  the object first.
\<close>

definition deref_ldapdb :: "world \<Rightarrow> addr option \<Rightarrow> ldapdb_t outcome" where
  "deref_ldapdb w db =
     (case db of
        None \<Rightarrow> Undefined
      | Some a \<Rightarrow> (case dbs w a of None \<Rightarrow> Undefined | Some d \<Rightarrow> Returns d))"

text \<open>\<open>node->rdatalist\<close>, read through the pointer to a node.\<close>

definition deref_ldapdbnode :: "world \<Rightarrow> addr option \<Rightarrow> (addr \<times> ldapdbnode_t) outcome" where
  "deref_ldapdbnode w node =
     (case node of
        None \<Rightarrow> Undefined
      | Some a \<Rightarrow> (case nodes w a of None \<Rightarrow> Undefined | Some n \<Rightarrow> Returns (a, n)))"

subsection \<open>The single version\<close>

text \<open>
  \<open>static int dummy; static void *ldapdb_version = &dummy;\<close> A version handle is NULL
  or an address; the sentinel is the address of \<open>dummy\<close>. An in-out parameter
  \<open>dns_dbversion_t **versionp\<close> is \<open>None\<close> when the pointer itself is NULL and
  \<open>Some v\<close> when it points to a handle holding \<open>v\<close>; the functions return what the
  handle holds afterwards.
\<close>

definition dummy :: addr where
  "dummy = 0"

definition ldapdb_version :: "addr option" where
  "ldapdb_version = Some dummy"

definition currentversion ::
  "addr option \<Rightarrow> addr option option \<Rightarrow> world \<Rightarrow> (addr option \<times> world) outcome" where
  "currentversion db versionp w =
     and_then (require_ldapdb w db) (\<lambda>(a, ldapdb).
       if versionp \<noteq> Some None then Aborts
       else Returns (ldapdb_version, w))"

definition newversion ::
  "addr option \<Rightarrow> addr option option \<Rightarrow> world \<Rightarrow> (isc_result_t \<times> addr option \<times> world) outcome" where
  "newversion db versionp w =
     and_then (require_ldapdb w db) (\<lambda>(a, ldapdb).
       if versionp \<noteq> Some None then Aborts
       else Returns (ISC_R_SUCCESS, ldapdb_version, w))"

definition attachversion ::
  "addr option \<Rightarrow> addr option \<Rightarrow> addr option option \<Rightarrow> world \<Rightarrow> (addr option \<times> world) outcome" where
  "attachversion db source targetp w =
     and_then (require_ldapdb w db) (\<lambda>(a, ldapdb).
       if source \<noteq> ldapdb_version then Aborts
       else if targetp \<noteq> Some None then Aborts
       else Returns (ldapdb_version, w))"

definition closeversion ::
  "addr option \<Rightarrow> addr option option \<Rightarrow> bool \<Rightarrow> world \<Rightarrow> (addr option \<times> world) outcome" where
  "closeversion db versionp commit w =
     and_then (require_ldapdb w db) (\<lambda>(a, ldapdb).
       if versionp \<noteq> Some ldapdb_version then Aborts
       else Returns (None, w))"

subsection \<open>Nodes\<close>

text \<open>
  \<open>ldapdbnode_create(mctx, owner, nodep)\<close>. It returns the code together with what
  \<open>*nodep\<close> holds afterwards.
\<close>

definition ldapdbnode_create ::
  "externals \<Rightarrow> ptr \<Rightarrow> dns_name_t \<Rightarrow> addr option option \<Rightarrow> world \<Rightarrow>
   (isc_result_t \<times> addr option \<times> world) outcome" where
  "ldapdbnode_create x mctx owner_name nodep w =
     (if nodep \<noteq> Some None then Aborts
      else and_then (isc_mem_get x mctx w) (\<lambda>(node, w1).
        case node of
          None \<Rightarrow> Returns (ISC_R_NOMEMORY, None, w1)
        | Some a \<Rightarrow>
            if refcount_init_res x \<noteq> ISC_R_SUCCESS
            then and_then (isc_mem_put mctx a w1) (\<lambda>w2.
                   Returns (refcount_init_res x, None, w2))
            else and_then (dns_name_dup x owner_name mctx w1) (\<lambda>(result, w2).
              if result \<noteq> ISC_R_SUCCESS
              then and_then (isc_mem_put mctx a w2) (\<lambda>w3. Returns (result, None, w3))
              else Returns (ISC_R_SUCCESS, Some a,
                     w2\<lparr>nodes := (nodes w2)(a \<mapsto>
                       \<lparr>magic = LDAPDBNODE_MAGIC, node_refs = 1, owner = owner_name,
                        rdatalist = []\<rparr>)\<rparr>))))"

text \<open>\<open>memcpy(&node->rdatalist, &rdatalist, sizeof(rdatalist))\<close>\<close>

definition memcpy_rdatalist :: "addr option \<Rightarrow> ldapdb_rdatalist_t \<Rightarrow> world \<Rightarrow> world outcome" where
  "memcpy_rdatalist node rdlists w =
     (case node of
        None \<Rightarrow> Undefined
      | Some a \<Rightarrow>
          (case nodes w a of
             None \<Rightarrow> Undefined
           | Some n \<Rightarrow> Returns (w\<lparr>nodes := (nodes w)(a \<mapsto> n\<lparr>rdatalist := rdlists\<rparr>)\<rparr>)))"


definition detachnode :: "addr option \<Rightarrow> addr option \<Rightarrow> world \<Rightarrow> (addr option \<times> world) outcome" where
  "detachnode db targetp w =
     and_then (require_ldapdbnode w targetp) (\<lambda>(a, node).
       and_then (isc_refcount_decrement (node_refs node)) (\<lambda>refs'.
         let w1 = w\<lparr>nodes := (nodes w)(a \<mapsto> node\<lparr>node_refs := refs'\<rparr>)\<rparr> in
         if refs' = 0 then
           and_then (deref_ldapdb w1 db) (\<lambda>ldapdb.
           and_then (ldapdb_rdatalist_destroy (common_mctx ldapdb) (rdatalist node) w1) (\<lambda>w2.
           and_then (dns_name_free (owner node) (common_mctx ldapdb) w2) (\<lambda>w3.
           and_then (isc_mem_put (common_mctx ldapdb) a w3) (\<lambda>w4.
             Returns (None, w4\<lparr>nodes := (nodes w4)(a := None)\<rparr>)))))
         else Returns (None, w1)))"

subsection \<open>Lookups\<close>

text \<open>
  \<open>findnode(db, name, create, nodep)\<close>, with what \<open>*nodep\<close> holds afterwards. The
  resolver's answer \<open>ldapdb_rdatalist_get(mctx, name, &rdatalist)\<close> is the code and the
  state it leaves in \<open>rdatalist\<close>.
\<close>

definition findnode ::
  "bool \<Rightarrow> externals \<Rightarrow> addr option \<Rightarrow> dns_name_t \<Rightarrow> bool \<Rightarrow> addr option \<Rightarrow> world \<Rightarrow>
   (isc_result_t \<times> addr option \<times> world) outcome" where
  "findnode chk x db name create nodep w =
     and_then (require_ldapdb w db) (\<lambda>(dba, ldapdb).
       let (result, rdlists) = rdatalist_get_res x in
       if \<not> INSIST chk (result \<noteq> DNS_R_PARTIALMATCH) then Aborts
       else if result = ISC_R_NOMEMORY then Returns (ISC_R_NOMEMORY, nodep, w)
       else if \<not> create \<and> result = DNS_R_PARTIALMATCH then
         and_then (ldapdb_rdatalist_destroy (common_mctx ldapdb) rdlists w) (\<lambda>w1.
           Returns (ISC_R_NOTFOUND, nodep, w1))
       else if \<not> create \<and> result \<noteq> ISC_R_SUCCESS then Returns (result, nodep, w)
       else
         and_then (ldapdbnode_create x (common_mctx ldapdb) name (Some None) w) (\<lambda>(result, node, w1).
           if result \<noteq> ISC_R_SUCCESS then
             and_then (ldapdb_rdatalist_destroy (common_mctx ldapdb) rdlists w1) (\<lambda>w2.
               Returns (result, nodep, w2))
           else
             and_then (memcpy_rdatalist node rdlists w1) (\<lambda>w2.
               Returns (ISC_R_SUCCESS, node, w2))))"

text \<open>
  The loop of \<open>find\<close> that walks the node's list for a CNAME:
  \<open>while (rdlist != NULL && rdlist->type != dns_rdatatype_cname) rdlist = NEXT(rdlist, link);\<close>
\<close>

fun find_cname :: "ldapdb_rdatalist_t \<Rightarrow> dns_rdatalist_t option" where
  "find_cname [] = None"
| "find_cname (rdlist # rest) =
     (if rdtype rdlist \<noteq> dns_rdatatype_cname then find_cname rest else Some rdlist)"

text \<open>
  \<open>find\<close>, from the search for the requested type (line 329) to its end: the node has
  been built and holds the resolver's list. The result is the code and what \<open>*nodep\<close>,
  \<open>foundname\<close> and \<open>rdataset\<close> hold afterwards.
\<close>

definition find_select ::
  "externals \<Rightarrow> addr option \<Rightarrow> ldapdb_t \<Rightarrow> dns_name_t \<Rightarrow> dns_rdatatype_t \<Rightarrow> addr \<Rightarrow> ldapdbnode_t \<Rightarrow>
   addr option \<Rightarrow> dns_name_t option \<Rightarrow> dns_rdataset_t \<Rightarrow> world \<Rightarrow>
   (isc_result_t \<times> addr option \<times> dns_name_t option \<times> dns_rdataset_t \<times> world) outcome" where
  "find_select x db ldapdb name t a node nodep foundname rdataset w =
     (let (result, rdlist) = ldapdb_rdatalist_findrdatatype (rdatalist node) t;
          (result, rdlist, is_cname) =
            (if result \<noteq> ISC_R_SUCCESS then
               (case find_cname (rdatalist node) of
                  Some c \<Rightarrow> (ISC_R_SUCCESS, Some c, True)
                | None \<Rightarrow> (result, None, False))
             else (result, rdlist, False))
      in
        if result \<noteq> ISC_R_SUCCESS then
          and_then (detachnode db (Some a) w) (\<lambda>(node', w1).
            Returns (DNS_R_NXRRSET, nodep, foundname, rdataset, w1))
        else
          and_then (dns_name_dupwithoffsets x name (common_mctx ldapdb) w) (\<lambda>(result, w1).
            if result \<noteq> ISC_R_SUCCESS then
              and_then (detachnode db (Some a) w1) (\<lambda>(node', w2).
                Returns (result, nodep, foundname, rdlist, w2))
            else
              Returns (if is_cname then DNS_R_CNAME else ISC_R_SUCCESS,
                       Some a, Some name, rdlist, w1)))"

text \<open>
  \<open>find(db, name, version, type, options, now, nodep, foundname, rdataset, sigrdataset)\<close>,
  called \<open>find_db\<close> here because \<open>find\<close> is a function on lists in HOL; \<open>options\<close>,
  \<open>now\<close> and \<open>sigrdataset\<close> are unused by the code and left out.
\<close>

definition find_db ::
  "bool \<Rightarrow> externals \<Rightarrow> addr option \<Rightarrow> dns_name_t \<Rightarrow> addr option \<Rightarrow> dns_rdatatype_t \<Rightarrow>
   addr option \<Rightarrow> dns_name_t option \<Rightarrow> dns_rdataset_t \<Rightarrow> world \<Rightarrow>
   (isc_result_t \<times> addr option \<times> dns_name_t option \<times> dns_rdataset_t \<times> world) outcome" where
  "find_db chk x db name version t nodep foundname rdataset w =
     and_then (require_ldapdb w db) (\<lambda>(dba, ldapdb).
       if \<not> INSIST chk (t \<noteq> dns_rdatatype_any) then Aborts
       else if version \<noteq> None \<and> version \<noteq> ldapdb_version then Aborts
       else
         let (result, rdlists) = rdatalist_get_res x in
         if \<not> INSIST chk (result \<noteq> DNS_R_PARTIALMATCH) then Aborts
         else if result \<noteq> ISC_R_SUCCESS \<and> result \<noteq> DNS_R_PARTIALMATCH then
           Returns (result, nodep, foundname, rdataset, w)
         else
           and_then (ldapdbnode_create x (common_mctx ldapdb) name (Some None) w) (\<lambda>(result, node, w1).
             if result \<noteq> ISC_R_SUCCESS then
               and_then (ldapdb_rdatalist_destroy (common_mctx ldapdb) rdlists w1) (\<lambda>w2.
                 Returns (result, nodep, foundname, rdataset, w2))
             else
               and_then (memcpy_rdatalist node rdlists w1) (\<lambda>w2.
               and_then (deref_ldapdbnode w2 node) (\<lambda>(a, n).
                 find_select x db ldapdb name t a n nodep foundname rdataset w2))))"

text \<open>
  \<open>findrdataset(db, node, version, type, covers, now, rdataset, sigrdataset)\<close>, with
  what \<open>rdataset\<close> holds afterwards; \<open>db\<close>, \<open>now\<close> and \<open>sigrdataset\<close> are unused.
\<close>

definition findrdataset ::
  "addr option \<Rightarrow> addr option \<Rightarrow> addr option \<Rightarrow> dns_rdatatype_t \<Rightarrow> dns_rdatatype_t \<Rightarrow>
   dns_rdataset_t \<Rightarrow> world \<Rightarrow> (isc_result_t \<times> dns_rdataset_t \<times> world) outcome" where
  "findrdataset db node version t covers rdataset w =
     (if covers \<noteq> 0 then Aborts
      else and_then (require_ldapdbnode w node) (\<lambda>(a, ldapdbnode).
        if version \<noteq> None \<and> version \<noteq> ldapdb_version then Aborts
        else
          let (result, rdlist) = ldapdb_rdatalist_findrdatatype (rdatalist ldapdbnode) t in
          if result \<noteq> ISC_R_SUCCESS then Returns (result, rdataset, w)
          else Returns (ISC_R_SUCCESS, rdlist, w)))"

subsection \<open>The store\<close>

text \<open>\<open>attach(source, targetp)\<close> and \<open>detach(dbp)\<close>, with what the handle holds afterwards.\<close>

definition attach :: "addr option \<Rightarrow> world \<Rightarrow> (addr option \<times> world) outcome" where
  "attach source w =
     and_then (require_ldapdb w source) (\<lambda>(a, ldapdb).
       and_then (isc_refcount_increment (refs ldapdb)) (\<lambda>refs'.
         Returns (source, w\<lparr>dbs := (dbs w)(a \<mapsto> ldapdb\<lparr>refs := refs'\<rparr>)\<rparr>)))"

definition free_ldapdb :: "addr \<Rightarrow> ldapdb_t \<Rightarrow> world \<Rightarrow> world outcome" where
  "free_ldapdb a ldapdb w =
     (let w1 = emit (Mutex_destroy a) w in
      and_then (dns_name_free (common_origin ldapdb) (common_mctx ldapdb) w1) (\<lambda>w2.
      and_then (isc_mem_putanddetach (common_mctx ldapdb) a w2) (\<lambda>w3.
        Returns (w3\<lparr>dbs := (dbs w3)(a := None)\<rparr>))))"

definition detach :: "addr option \<Rightarrow> world \<Rightarrow> (addr option \<times> world) outcome" where
  "detach dbp w =
     and_then (require_ldapdb w dbp) (\<lambda>(a, ldapdb).
       and_then (isc_refcount_decrement (refs ldapdb)) (\<lambda>refs'.
         let ldapdb' = ldapdb\<lparr>refs := refs'\<rparr>;
             w1 = w\<lparr>dbs := (dbs w)(a \<mapsto> ldapdb')\<rparr>
         in if refs' = 0 then and_then (free_ldapdb a ldapdb' w1) (\<lambda>w2. Returns (None, w2))
            else Returns (None, w1)))"

text \<open>
  \<open>ldapdb_create(mctx, name, type, rdclass, argc, argv, driverarg, dbp)\<close>, with what
  \<open>*dbp\<close> holds afterwards. The three labels at its end come first; \<open>ctx\<close> is the
  field \<open>ldapdb->common.mctx\<close> of the block under construction as it stands when the
  label is reached: indeterminate until line 735 assigns it.
\<close>

definition clean_ldapdb ::
  "ptr \<Rightarrow> addr \<Rightarrow> isc_result_t \<Rightarrow> world \<Rightarrow> (isc_result_t \<times> addr option \<times> world) outcome" where
  "clean_ldapdb ctx a result w =
     and_then (isc_mem_putanddetach ctx a w) (\<lambda>w1. Returns (result, None, w1))"

definition clean_origin ::
  "ptr \<Rightarrow> ptr \<Rightarrow> dns_name_t \<Rightarrow> addr \<Rightarrow> isc_result_t \<Rightarrow> world \<Rightarrow>
   (isc_result_t \<times> addr option \<times> world) outcome" where
  "clean_origin mctx ctx origin a result w =
     and_then (dns_name_free origin mctx w) (\<lambda>w1. clean_ldapdb ctx a result w1)"

definition clean_lock ::
  "ptr \<Rightarrow> ptr \<Rightarrow> dns_name_t \<Rightarrow> addr \<Rightarrow> isc_result_t \<Rightarrow> world \<Rightarrow>
   (isc_result_t \<times> addr option \<times> world) outcome" where
  "clean_lock mctx ctx origin a result w =
     clean_origin mctx ctx origin a result (emit (Mutex_destroy a) w)"

definition ldapdb_create ::
  "externals \<Rightarrow> ptr \<Rightarrow> dns_name_t \<Rightarrow> dns_dbtype_t \<Rightarrow> dns_rdataclass_t \<Rightarrow> nat \<Rightarrow> string list \<Rightarrow>
   addr option option \<Rightarrow> world \<Rightarrow> (isc_result_t \<times> addr option \<times> world) outcome" where
  "ldapdb_create x mctx name dbtype rdclass argc argv dbp w =
     (if \<not> 0 < argc then Aborts
      else if dbtype \<noteq> dns_dbtype_zone then Aborts
      else if rdclass \<noteq> dns_rdataclass_in then Aborts
      else if dbp \<noteq> Some None then Aborts
      else and_then (isc_mem_get x mctx w) (\<lambda>(ldapdb, w1).
        case ldapdb of
          None \<Rightarrow> Returns (ISC_R_NOMEMORY, None, w1)
        | Some a \<Rightarrow>
            and_then (dns_name_dupwithoffsets x name mctx w1) (\<lambda>(result, w2).
              if result \<noteq> ISC_R_SUCCESS then clean_ldapdb Indeterminate a result w2
              else and_then (isc_mem_attach mctx w2) (\<lambda>(ctx, w3).
                if mutex_init_res x \<noteq> ISC_R_SUCCESS
                then clean_origin mctx ctx name a (mutex_init_res x) w3
                else
                  let w4 = emit (Mutex_init a) w3 in
                  if refcount_init_res x \<noteq> ISC_R_SUCCESS
                  then clean_lock mctx ctx name a (refcount_init_res x) w4
                  else
                    (case argv of
                       [] \<Rightarrow> Undefined
                     | arg0 # args \<Rightarrow>
                         let (result, instance) = manager_get_res x in
                         if result \<noteq> ISC_R_SUCCESS
                         then clean_lock mctx ctx name a result w4
                         else Returns (ISC_R_SUCCESS, Some a,
                                w4\<lparr>dbs := (dbs w4)(a \<mapsto>
                                  \<lparr>common_magic = DNS_DB_MAGIC, common_impmagic = LDAPDB_MAGIC,
                                   common_rdclass = rdclass, common_origin = name,
                                   common_mctx = ctx, refs = 1,
                                   ldap_db = instance\<rparr>)\<rparr>))))))"

subsection \<open>The operations that are not implemented\<close>

text \<open>
  Each takes what the C function takes and gives back the returned value, then what
  the caller's objects behind the pointer arguments hold afterwards, then the world.
  \<open>issecure\<close>, \<open>ispersistent\<close> and \<open>isdnssec\<close> are declared to return
  \<open>isc_boolean_t\<close> and \<open>nodecount\<close> to return \<open>unsigned int\<close>; their return statement
  is \<open>return ISC_R_NOTIMPLEMENTED;\<close> all the same, so what they return is the number
  of that code in the declared type, and the model keeps the code.
\<close>

definition findzonecut ::
  "addr option \<Rightarrow> dns_name_t \<Rightarrow> 32 word \<Rightarrow> 32 word \<Rightarrow> addr option \<Rightarrow> dns_name_t option \<Rightarrow>
   dns_rdataset_t \<Rightarrow> dns_rdataset_t \<Rightarrow> world \<Rightarrow>
   isc_result_t \<times> addr option \<times> dns_name_t option \<times> dns_rdataset_t \<times> dns_rdataset_t \<times> world" where
  "findzonecut db name options now nodep foundname rdataset sigrdataset w =
     (ISC_R_NOTIMPLEMENTED, nodep, foundname, rdataset, sigrdataset, w)"

definition expirenode :: "addr option \<Rightarrow> addr option \<Rightarrow> 32 word \<Rightarrow> world \<Rightarrow> isc_result_t \<times> world" where
  "expirenode db node now w = (ISC_R_NOTIMPLEMENTED, w)"

definition createiterator ::
  "addr option \<Rightarrow> 32 word \<Rightarrow> addr option \<Rightarrow> world \<Rightarrow> isc_result_t \<times> addr option \<times> world" where
  "createiterator db options iteratorp w = (ISC_R_NOTIMPLEMENTED, iteratorp, w)"

definition allrdatasets ::
  "addr option \<Rightarrow> addr option \<Rightarrow> addr option \<Rightarrow> 32 word \<Rightarrow> addr option \<Rightarrow> world \<Rightarrow>
   isc_result_t \<times> addr option \<times> world" where
  "allrdatasets db node version now iteratorp w = (ISC_R_NOTIMPLEMENTED, iteratorp, w)"

definition addrdataset ::
  "addr option \<Rightarrow> addr option \<Rightarrow> addr option \<Rightarrow> 32 word \<Rightarrow> dns_rdataset_t \<Rightarrow> 32 word \<Rightarrow>
   dns_rdataset_t \<Rightarrow> world \<Rightarrow> isc_result_t \<times> dns_rdataset_t \<times> dns_rdataset_t \<times> world" where
  "addrdataset db node version now rdataset options addedrdataset w =
     (ISC_R_NOTIMPLEMENTED, rdataset, addedrdataset, w)"

definition subtractrdataset ::
  "addr option \<Rightarrow> addr option \<Rightarrow> addr option \<Rightarrow> dns_rdataset_t \<Rightarrow> 32 word \<Rightarrow>
   dns_rdataset_t \<Rightarrow> world \<Rightarrow> isc_result_t \<times> dns_rdataset_t \<times> dns_rdataset_t \<times> world" where
  "subtractrdataset db node version rdataset options newrdataset w =
     (ISC_R_NOTIMPLEMENTED, rdataset, newrdataset, w)"

definition deleterdataset ::
  "addr option \<Rightarrow> addr option \<Rightarrow> addr option \<Rightarrow> dns_rdatatype_t \<Rightarrow> dns_rdatatype_t \<Rightarrow> world \<Rightarrow>
   isc_result_t \<times> world" where
  "deleterdataset db node version t covers w = (ISC_R_NOTIMPLEMENTED, w)"

definition issecure :: "addr option \<Rightarrow> world \<Rightarrow> isc_result_t \<times> world" where
  "issecure db w = (ISC_R_NOTIMPLEMENTED, w)"

definition nodecount :: "addr option \<Rightarrow> world \<Rightarrow> isc_result_t \<times> world" where
  "nodecount db w = (ISC_R_NOTIMPLEMENTED, w)"

definition ispersistent :: "addr option \<Rightarrow> world \<Rightarrow> isc_result_t \<times> world" where
  "ispersistent db w = (ISC_R_NOTIMPLEMENTED, w)"

definition getoriginnode ::
  "addr option \<Rightarrow> addr option \<Rightarrow> world \<Rightarrow> isc_result_t \<times> addr option \<times> world" where
  "getoriginnode db nodep w = (ISC_R_NOTIMPLEMENTED, nodep, w)"

definition getnsec3parameters ::
  "addr option \<Rightarrow> addr option \<Rightarrow> 8 word \<Rightarrow> 8 word \<Rightarrow> 16 word \<Rightarrow> 8 word list \<Rightarrow> nat \<Rightarrow> world \<Rightarrow>
   isc_result_t \<times> 8 word \<times> 8 word \<times> 16 word \<times> 8 word list \<times> nat \<times> world" where
  "getnsec3parameters db version hash flags iterations salt salt_len w =
     (ISC_R_NOTIMPLEMENTED, hash, flags, iterations, salt, salt_len, w)"

definition findnsec3node ::
  "addr option \<Rightarrow> dns_name_t \<Rightarrow> bool \<Rightarrow> addr option \<Rightarrow> world \<Rightarrow>
   isc_result_t \<times> addr option \<times> world" where
  "findnsec3node db name create nodep w = (ISC_R_NOTIMPLEMENTED, nodep, w)"

definition setsigningtime ::
  "addr option \<Rightarrow> dns_rdataset_t \<Rightarrow> 32 word \<Rightarrow> world \<Rightarrow> isc_result_t \<times> dns_rdataset_t \<times> world" where
  "setsigningtime db rdataset resign w = (ISC_R_NOTIMPLEMENTED, rdataset, w)"

definition getsigningtime ::
  "addr option \<Rightarrow> dns_rdataset_t \<Rightarrow> dns_name_t option \<Rightarrow> world \<Rightarrow>
   isc_result_t \<times> dns_rdataset_t \<times> dns_name_t option \<times> world" where
  "getsigningtime db rdataset name w = (ISC_R_NOTIMPLEMENTED, rdataset, name, w)"

definition isdnssec :: "addr option \<Rightarrow> world \<Rightarrow> isc_result_t \<times> world" where
  "isdnssec db w = (ISC_R_NOTIMPLEMENTED, w)"

subsection \<open>The sequences of attach and detach calls\<close>

datatype refop = Attach | Detach

text \<open>The calls of a sequence, made one after the other on the store at \<open>a\<close>.\<close>

fun store_ops :: "addr \<Rightarrow> refop list \<Rightarrow> world \<Rightarrow> world outcome" where
  "store_ops a [] w = Returns w"
| "store_ops a (Attach # ops) w = and_then (attach (Some a) w) (\<lambda>(h, w'). store_ops a ops w')"
| "store_ops a (Detach # ops) w = and_then (detach (Some a) w) (\<lambda>(h, w'). store_ops a ops w')"





subsection \<open>Example inputs\<close>

text \<open>
  The node that \<open>find\<close> and \<open>findnode\<close> build for a name out of the resolver's list:
  one reference, its own copy of the name.
\<close>

definition new_node :: "dns_name_t \<Rightarrow> ldapdb_rdatalist_t \<Rightarrow> ldapdbnode_t" where
  "new_node name rdl =
     \<lparr>magic = LDAPDBNODE_MAGIC, node_refs = 1, owner = name, rdatalist = rdl\<rparr>"

text \<open>A store as \<open>ldapdb_create\<close> leaves it, alone in the world at address 10.\<close>

definition store0 :: ldapdb_t where
  "store0 = \<lparr>common_magic = DNS_DB_MAGIC, common_impmagic = LDAPDB_MAGIC,
     common_rdclass = dns_rdataclass_in, common_origin = ''example.'',
     common_mctx = Ptr 1, refs = 1, ldap_db = 2\<rparr>"

definition world0 :: world where
  "world0 = \<lparr>dbs = [10 \<mapsto> store0], nodes = Map.empty, trace = []\<rparr>"

definition rdlist_a :: dns_rdatalist_t where
  "rdlist_a = \<lparr>rdtype = dns_rdatatype_a, ttl = 300, rdata = [''192.0.2.1'']\<rparr>"

definition rdlist_cname :: dns_rdatalist_t where
  "rdlist_cname = \<lparr>rdtype = dns_rdatatype_cname, ttl = 300, rdata = [''canon.example.'']\<rparr>"

text \<open>The resolver answers \<open>res\<close> and leaves \<open>rdl\<close>; every other external succeeds.\<close>

definition answers :: "isc_result_t \<Rightarrow> ldapdb_rdatalist_t \<Rightarrow> externals" where
  "answers res rdl =
     \<lparr>rdatalist_get_res = (res, rdl), mem_get_res = Some 20,
      refcount_init_res = ISC_R_SUCCESS, name_dup_res = ISC_R_SUCCESS,
      name_dupwithoffsets_res = ISC_R_SUCCESS, mutex_init_res = ISC_R_SUCCESS,
      manager_get_res = (ISC_R_SUCCESS, 2)\<rparr>"

text \<open>The same store with one node for a name that is an alias.\<close>

definition world1 :: world where
  "world1 = \<lparr>dbs = [10 \<mapsto> store0], nodes = [20 \<mapsto> new_node ''alias.example.'' [rdlist_cname]],
     trace = []\<rparr>"


text \<open>A world before any store has been created.\<close>

definition no_world :: world where
  "no_world = \<lparr>dbs = Map.empty, nodes = Map.empty, trace = []\<rparr>"

section \<open>Properties\<close>

subsection \<open>Building and releasing a node\<close>

lemma ldapdbnode_create_ok:
  assumes "mem_get_res x = Some a" "refcount_init_res x = ISC_R_SUCCESS"
    "name_dup_res x = ISC_R_SUCCESS"
  shows "ldapdbnode_create x (Ptr m) name (Some None) w =
    Returns (ISC_R_SUCCESS, Some a,
      w\<lparr>trace := trace w @ [Mem_get a, Name_dup name],
        nodes := (nodes w)(a \<mapsto> new_node name [])\<rparr>)"
  using assms
  by (simp add: ldapdbnode_create_def isc_mem_get_def dns_name_dup_def and_then_def emit_def
      new_node_def)

lemma detachnode_last:
  assumes "nodes w a = Some n" "magic n = LDAPDBNODE_MAGIC" "node_refs n = 1"
    "dbs w db = Some d" "common_mctx d = Ptr m"
  shows "detachnode (Some db) (Some a) w =
     Returns (None,
       w\<lparr>trace := trace w @ [Rdatalist_destroy (rdatalist n), Name_free (owner n), Mem_put a],
         nodes := (nodes w)(a := None)\<rparr>)"
  using assms
  by (simp add: detachnode_def require_ldapdbnode_def isc_refcount_decrement_def and_then_def
      deref_ldapdb_def ldapdb_rdatalist_destroy_def dns_name_free_def isc_mem_put_def emit_def)

subsection \<open>The search in a list of record-lists\<close>

lemma find_first:
  "\<exists>r\<in>set rdl. P r \<Longrightarrow> \<exists>r\<in>set rdl. P r \<and> List.find P rdl = Some r"
  by (induction rdl) auto

lemma find_absent:
  "\<forall>r\<in>set rdl. \<not> P r \<Longrightarrow> List.find P rdl = None"
  by (induction rdl) auto

lemma findrdatatype_Some:
  "List.find (\<lambda>r. rdtype r = t) rdl = Some r \<Longrightarrow>
   ldapdb_rdatalist_findrdatatype rdl t = (ISC_R_SUCCESS, Some r)"
  by (simp add: ldapdb_rdatalist_findrdatatype_def)

lemma findrdatatype_None:
  "List.find (\<lambda>r. rdtype r = t) rdl = None \<Longrightarrow>
   ldapdb_rdatalist_findrdatatype rdl t = (ISC_R_NOTFOUND, None)"
  by (simp add: ldapdb_rdatalist_findrdatatype_def)

lemma find_cname_find:
  "find_cname rdl = List.find (\<lambda>r. rdtype r = dns_rdatatype_cname) rdl"
  by (induction rdl) auto

subsection \<open>The steps of find\<close>

text \<open>
  Up to the search: with a store that is valid, a resolver answer that lets \<open>find\<close>
  go on and a node that can be built, \<open>find\<close> is its second half on the new node.
\<close>

lemma find_db_built:
  assumes "dbs w db = Some d" "common_impmagic d = LDAPDB_MAGIC" "common_mctx d = Ptr m"
    and "INSIST chk (t \<noteq> dns_rdatatype_any)" and "version = None \<or> version = ldapdb_version"
    and "rdatalist_get_res x = (res, rdl)"
    and "res = ISC_R_SUCCESS \<or> (res = DNS_R_PARTIALMATCH \<and> \<not> chk)"
    and "mem_get_res x = Some a" "refcount_init_res x = ISC_R_SUCCESS"
    and "name_dup_res x = ISC_R_SUCCESS"
  shows "find_db chk x (Some db) name version t nodep foundname rdataset w =
     find_select x (Some db) d name t a (new_node name rdl) nodep foundname rdataset
       (w\<lparr>trace := trace w @ [Mem_get a, Name_dup name],
          nodes := (nodes w)(a \<mapsto> new_node name rdl)\<rparr>)"
  using assms
  by (auto simp add: find_db_def require_ldapdb_def and_then_def ldapdbnode_create_ok
      memcpy_rdatalist_def deref_ldapdbnode_def INSIST_def new_node_def)

lemma find_select_exact:
  assumes "common_mctx d = Ptr m" "name_dupwithoffsets_res x = ISC_R_SUCCESS"
   "List.find (\<lambda>r. rdtype r = t) (rdatalist n) = Some r"
  shows "find_select x db d name t a n nodep foundname rdataset w =
     Returns (ISC_R_SUCCESS, Some a, Some name, Some r, w\<lparr>trace := trace w @ [Name_dup name]\<rparr>)"
  using assms
  by (simp add: find_select_def findrdatatype_Some dns_name_dupwithoffsets_def and_then_def
      emit_def)

lemma find_select_cname:
  assumes "common_mctx d = Ptr m" "name_dupwithoffsets_res x = ISC_R_SUCCESS"
   "List.find (\<lambda>r. rdtype r = t) (rdatalist n) = None"
   "find_cname (rdatalist n) = Some c"
  shows "find_select x db d name t a n nodep foundname rdataset w =
     Returns (DNS_R_CNAME, Some a, Some name, Some c, w\<lparr>trace := trace w @ [Name_dup name]\<rparr>)"
  using assms
  by (simp add: find_select_def findrdatatype_None dns_name_dupwithoffsets_def and_then_def
      emit_def)

lemma find_select_none:
  assumes "nodes w a = Some n" "magic n = LDAPDBNODE_MAGIC" "node_refs n = 1"
    "dbs w db = Some d" "common_mctx d = Ptr m"
   "List.find (\<lambda>r. rdtype r = t) (rdatalist n) = None"
   "find_cname (rdatalist n) = None"
  shows "find_select x (Some db) d name t a n nodep foundname rdataset w =
     Returns (DNS_R_NXRRSET, nodep, foundname, rdataset,
       w\<lparr>trace := trace w @ [Rdatalist_destroy (rdatalist n), Name_free (owner n), Mem_put a],
         nodes := (nodes w)(a := None)\<rparr>)"
  using assms
  by (simp add: find_select_def findrdatatype_None detachnode_last and_then_def)

subsection \<open>Selection by type, then by CNAME\<close>

text \<open>
  Claim C1. Take a call of \<open>find\<close> on a valid store, for a type other than ANY and
  with the version absent or the sentinel, where the resolver succeeds with the
  list \<open>rdl\<close> and the node and the copy of the found name can be allocated. If
  \<open>rdl\<close> has an entry of the requested type, \<open>find\<close> returns plain success with the
  result set bound to that entry (the first of that type from the head), whether
  or not a CNAME entry is present. If \<open>rdl\<close> has no entry of the requested type but
  has a CNAME entry, \<open>find\<close> returns \<open>DNS_R_CNAME\<close> with the result set bound to the
  CNAME entry. Either way the caller gets the new node, which owns \<open>rdl\<close>, and the
  copy of the name.
\<close>

theorem find_exact_type_before_cname:
  assumes store: "dbs w db = Some d" "common_impmagic d = LDAPDB_MAGIC" "common_mctx d = Ptr m"
    and args: "t \<noteq> dns_rdatatype_any" "version = None \<or> version = ldapdb_version"
    and resolver: "rdatalist_get_res x = (ISC_R_SUCCESS, rdl)"
    and node: "mem_get_res x = Some a" "refcount_init_res x = ISC_R_SUCCESS"
      "name_dup_res x = ISC_R_SUCCESS"
    and dup: "name_dupwithoffsets_res x = ISC_R_SUCCESS"
  shows "((\<exists>r\<in>set rdl. rdtype r = t) \<longrightarrow>
          (\<exists>r\<in>set rdl. rdtype r = t \<and> List.find (\<lambda>e. rdtype e = t) rdl = Some r \<and>
             find_db chk x (Some db) name version t nodep foundname rdataset w =
               Returns (ISC_R_SUCCESS, Some a, Some name, Some r,
                 w\<lparr>trace := trace w @ [Mem_get a, Name_dup name, Name_dup name],
                   nodes := (nodes w)(a \<mapsto> new_node name rdl)\<rparr>)))
       \<and> ((\<forall>r\<in>set rdl. rdtype r \<noteq> t) \<and> (\<exists>c\<in>set rdl. rdtype c = dns_rdatatype_cname) \<longrightarrow>
          (\<exists>c\<in>set rdl. rdtype c = dns_rdatatype_cname \<and> find_cname rdl = Some c \<and>
             find_db chk x (Some db) name version t nodep foundname rdataset w =
               Returns (DNS_R_CNAME, Some a, Some name, Some c,
                 w\<lparr>trace := trace w @ [Mem_get a, Name_dup name, Name_dup name],
                   nodes := (nodes w)(a \<mapsto> new_node name rdl)\<rparr>)))"
proof -
  have built: "find_db chk x (Some db) name version t nodep foundname rdataset w =
     find_select x (Some db) d name t a (new_node name rdl) nodep foundname rdataset
       (w\<lparr>trace := trace w @ [Mem_get a, Name_dup name],
          nodes := (nodes w)(a \<mapsto> new_node name rdl)\<rparr>)"
    by (rule find_db_built [where res = ISC_R_SUCCESS and m = m])
      (use store args resolver node in \<open>simp_all add: INSIST_def\<close>)
  have exact: ?thesis if "\<exists>r\<in>set rdl. rdtype r = t"
  proof -
    from find_first [of rdl "\<lambda>r. rdtype r = t"] that
    obtain r where r: "r \<in> set rdl" "rdtype r = t" "List.find (\<lambda>r. rdtype r = t) rdl = Some r"
      by blast
    from r(3) have "List.find (\<lambda>r. rdtype r = t) (rdatalist (new_node name rdl)) = Some r"
      by (simp add: new_node_def)
    from find_select_exact [OF store(3) dup this]
    have "find_db chk x (Some db) name version t nodep foundname rdataset w =
       Returns (ISC_R_SUCCESS, Some a, Some name, Some r,
         w\<lparr>trace := trace w @ [Mem_get a, Name_dup name, Name_dup name],
           nodes := (nodes w)(a \<mapsto> new_node name rdl)\<rparr>)"
      by (simp add: built)
    with r that show ?thesis by blast
  qed
  have cname: ?thesis
    if none: "\<forall>r\<in>set rdl. rdtype r \<noteq> t" and some: "\<exists>c\<in>set rdl. rdtype c = dns_rdatatype_cname"
  proof -
    from find_first [of rdl "\<lambda>r. rdtype r = dns_rdatatype_cname"] some
    obtain c where c: "c \<in> set rdl" "rdtype c = dns_rdatatype_cname"
      "List.find (\<lambda>r. rdtype r = dns_rdatatype_cname) rdl = Some c"
      by blast
    from none have n: "List.find (\<lambda>r. rdtype r = t) (rdatalist (new_node name rdl)) = None"
      by (simp add: new_node_def find_absent)
    from c(3) have "find_cname (rdatalist (new_node name rdl)) = Some c"
      by (simp add: new_node_def find_cname_find)
    from find_select_cname [OF store(3) dup n this]
    have "find_db chk x (Some db) name version t nodep foundname rdataset w =
       Returns (DNS_R_CNAME, Some a, Some name, Some c,
         w\<lparr>trace := trace w @ [Mem_get a, Name_dup name, Name_dup name],
           nodes := (nodes w)(a \<mapsto> new_node name rdl)\<rparr>)"
      by (simp add: built)
    with c none show ?thesis by (auto simp add: find_cname_find)
  qed
  show ?thesis
  proof (cases "\<exists>r\<in>set rdl. rdtype r = t")
    case True
    then show ?thesis by (rule exact)
  next
    case False
    show ?thesis
    proof (cases "\<exists>c\<in>set rdl. rdtype c = dns_rdatatype_cname")
      case True
      with False show ?thesis by (intro cname) auto
    next
      case no: False
      with False show ?thesis by blast
    qed
  qed
qed

text \<open>
  The store \<open>store0\<close> is asked for the A records of a name that has a CNAME entry and,
  behind it, an A entry: the A entry is the answer. Asked for the A records of a
  name that has a CNAME entry only, it answers \<open>DNS_R_CNAME\<close> with that entry.
\<close>

theorem find_exact_type_before_cname_witness:
  "find_db True (answers ISC_R_SUCCESS [rdlist_cname, rdlist_a]) (Some 10) ''www.example.'' None
     dns_rdatatype_a None None None world0 =
   Returns (ISC_R_SUCCESS, Some 20, Some ''www.example.'', Some rdlist_a,
     world0\<lparr>trace := [Mem_get 20, Name_dup ''www.example.'', Name_dup ''www.example.''],
            nodes := [20 \<mapsto> new_node ''www.example.'' [rdlist_cname, rdlist_a]]\<rparr>)
   \<and> find_db True (answers ISC_R_SUCCESS [rdlist_cname]) (Some 10) ''alias.example.'' None
     dns_rdatatype_a None None None world0 =
   Returns (DNS_R_CNAME, Some 20, Some ''alias.example.'', Some rdlist_cname,
     world0\<lparr>trace := [Mem_get 20, Name_dup ''alias.example.'', Name_dup ''alias.example.''],
            nodes := [20 \<mapsto> new_node ''alias.example.'' [rdlist_cname]]\<rparr>)"
proof -
  have a: "dns_rdatatype_a \<noteq> dns_rdatatype_any" "dns_rdatatype_a \<noteq> dns_rdatatype_cname"
    by (simp_all add: dns_rdatatype_a_def dns_rdatatype_any_def dns_rdatatype_cname_def)
  have s: "dbs world0 10 = Some store0" "common_impmagic store0 = LDAPDB_MAGIC"
    "common_mctx store0 = Ptr 1"
    by (simp_all add: world0_def store0_def)
  have 1: "find_db True (answers ISC_R_SUCCESS [rdlist_cname, rdlist_a]) (Some 10) ''www.example.'' None
     dns_rdatatype_a None None None world0 =
   Returns (ISC_R_SUCCESS, Some 20, Some ''www.example.'', Some rdlist_a,
     world0\<lparr>trace := [Mem_get 20, Name_dup ''www.example.'', Name_dup ''www.example.''],
            nodes := [20 \<mapsto> new_node ''www.example.'' [rdlist_cname, rdlist_a]]\<rparr>)"
    using find_exact_type_before_cname [OF s a(1), of None
        "answers ISC_R_SUCCESS [rdlist_cname, rdlist_a]" "[rdlist_cname, rdlist_a]" 20
        True "''www.example.''" None None None] a
    by (simp add: answers_def rdlist_a_def rdlist_cname_def world0_def)
  have 2: "find_db True (answers ISC_R_SUCCESS [rdlist_cname]) (Some 10) ''alias.example.'' None
     dns_rdatatype_a None None None world0 =
   Returns (DNS_R_CNAME, Some 20, Some ''alias.example.'', Some rdlist_cname,
     world0\<lparr>trace := [Mem_get 20, Name_dup ''alias.example.'', Name_dup ''alias.example.''],
            nodes := [20 \<mapsto> new_node ''alias.example.'' [rdlist_cname]]\<rparr>)"
    using find_exact_type_before_cname [OF s a(1), of None
        "answers ISC_R_SUCCESS [rdlist_cname]" "[rdlist_cname]" 20
        True "''alias.example.''" None None None] a
    by (simp add: answers_def rdlist_a_def rdlist_cname_def world0_def)
  from 1 2 show ?thesis by simp
qed

text \<open>
  Claim C2. Take a call of \<open>find\<close> on a valid store, for a type other than ANY and
  with the version absent or the sentinel, where the resolver succeeds with the
  list \<open>rdl\<close> and the node is built in a fresh block \<open>a\<close>. If \<open>rdl\<close> has no entry of
  the requested type and no CNAME entry, \<open>find\<close> returns \<open>DNS_R_NXRRSET\<close>, which is
  not the code for a name that is not found. Before it returns it has released
  the node: the record-lists, the copy of the name and the block, in this order.
  The caller's \<open>*nodep\<close>, \<open>foundname\<close> and \<open>rdataset\<close> are as they were and no node
  is left in the world.
\<close>

theorem find_no_such_rrset:
  assumes store: "dbs w db = Some d" "common_impmagic d = LDAPDB_MAGIC" "common_mctx d = Ptr m"
    and args: "t \<noteq> dns_rdatatype_any" "version = None \<or> version = ldapdb_version"
    and resolver: "rdatalist_get_res x = (ISC_R_SUCCESS, rdl)"
    and node: "mem_get_res x = Some a" "refcount_init_res x = ISC_R_SUCCESS"
      "name_dup_res x = ISC_R_SUCCESS"
    and fresh: "nodes w a = None"
    and no_type: "\<forall>r\<in>set rdl. rdtype r \<noteq> t"
    and no_cname: "\<forall>r\<in>set rdl. rdtype r \<noteq> dns_rdatatype_cname"
  shows "find_db chk x (Some db) name version t nodep foundname rdataset w =
           Returns (DNS_R_NXRRSET, nodep, foundname, rdataset,
             w\<lparr>trace := trace w @ [Mem_get a, Name_dup name, Rdatalist_destroy rdl,
                                    Name_free name, Mem_put a]\<rparr>)
         \<and> DNS_R_NXRRSET \<noteq> ISC_R_NOTFOUND"
proof -
  let ?w1 = "w\<lparr>trace := trace w @ [Mem_get a, Name_dup name],
               nodes := (nodes w)(a \<mapsto> new_node name rdl)\<rparr>"
  have built: "find_db chk x (Some db) name version t nodep foundname rdataset w =
     find_select x (Some db) d name t a (new_node name rdl) nodep foundname rdataset ?w1"
    by (rule find_db_built [where res = ISC_R_SUCCESS and m = m])
      (use store args resolver node in \<open>simp_all add: INSIST_def\<close>)
  have n1: "List.find (\<lambda>r. rdtype r = t) (rdatalist (new_node name rdl)) = None"
    using no_type by (simp add: new_node_def find_absent)
  have n2: "find_cname (rdatalist (new_node name rdl)) = None"
    using no_cname by (simp add: new_node_def find_cname_find find_absent)
  have "find_select x (Some db) d name t a (new_node name rdl) nodep foundname rdataset ?w1 =
     Returns (DNS_R_NXRRSET, nodep, foundname, rdataset,
       ?w1\<lparr>trace := trace ?w1 @ [Rdatalist_destroy (rdatalist (new_node name rdl)),
                                   Name_free (owner (new_node name rdl)), Mem_put a],
           nodes := (nodes ?w1)(a := None)\<rparr>)"
    by (rule find_select_none [where m = m]) (use store n1 n2 in \<open>simp_all add: new_node_def\<close>)
  moreover have "(nodes w)(a := None) = nodes w"
    using fresh by (simp add: fun_upd_idem_iff)
  ultimately show ?thesis
    by (simp add: built new_node_def)
qed

text \<open>
  The name \<open>www.example.\<close> has A records only; asked for its MX records, \<open>find\<close>
  answers \<open>DNS_R_NXRRSET\<close> and leaves no node behind.
\<close>

theorem find_no_such_rrset_witness:
  "find_db True (answers ISC_R_SUCCESS [rdlist_a]) (Some 10) ''www.example.'' None
     dns_rdatatype_mx None None None world0 =
   Returns (DNS_R_NXRRSET, None, None, None,
     world0\<lparr>trace := [Mem_get 20, Name_dup ''www.example.'', Rdatalist_destroy [rdlist_a],
                       Name_free ''www.example.'', Mem_put 20]\<rparr>)"
proof -
  have t: "dns_rdatatype_mx \<noteq> dns_rdatatype_any"
    by (simp add: dns_rdatatype_mx_def dns_rdatatype_any_def)
  have s: "dbs world0 10 = Some store0" "common_impmagic store0 = LDAPDB_MAGIC"
    "common_mctx store0 = Ptr 1"
    by (simp_all add: world0_def store0_def)
  show ?thesis
    using find_no_such_rrset [OF s t, of None "answers ISC_R_SUCCESS [rdlist_a]" "[rdlist_a]" 20
        True "''www.example.''" None None None]
    by (simp add: answers_def rdlist_a_def world0_def dns_rdatatype_a_def dns_rdatatype_mx_def
        dns_rdatatype_cname_def)
qed

subsection \<open>A partial match in find\<close>

text \<open>
  Nothing that \<open>find\<close> does after the resolver's answer reads that answer again.
\<close>

lemma ldapdbnode_create_resolver [simp]:
  "ldapdbnode_create (x\<lparr>rdatalist_get_res := r\<rparr>) = ldapdbnode_create x"
  by (auto simp add: fun_eq_iff ldapdbnode_create_def isc_mem_get_def dns_name_dup_def
      and_then_def split: ptr.splits option.splits)

lemma find_select_resolver [simp]:
  "find_select (x\<lparr>rdatalist_get_res := r\<rparr>) = find_select x"
  by (auto simp add: fun_eq_iff find_select_def dns_name_dupwithoffsets_def and_then_def
      split: ptr.splits option.splits prod.splits)

text \<open>
  With \<open>INSIST\<close> compiled in, as the host library has it by default, a partial
  match does not get past line 316: the call is aborted and no node is built,
  where a full match with the same record-lists returns the A entry.
\<close>

theorem find_partial_match_counterexample:
  "find_db True (answers DNS_R_PARTIALMATCH [rdlist_a]) (Some 10) ''www.example.'' None
     dns_rdatatype_a None None None world0 = Aborts
   \<and> find_db True (answers ISC_R_SUCCESS [rdlist_a]) (Some 10) ''www.example.'' None
     dns_rdatatype_a None None None world0 =
     Returns (ISC_R_SUCCESS, Some 20, Some ''www.example.'', Some rdlist_a,
       world0\<lparr>trace := [Mem_get 20, Name_dup ''www.example.'', Name_dup ''www.example.''],
              nodes := [20 \<mapsto> new_node ''www.example.'' [rdlist_a]]\<rparr>)"
proof -
  have t: "dns_rdatatype_a \<noteq> dns_rdatatype_any" "dns_rdatatype_a \<noteq> dns_rdatatype_cname"
    by (simp_all add: dns_rdatatype_a_def dns_rdatatype_any_def dns_rdatatype_cname_def)
  have partial: "find_db True (answers DNS_R_PARTIALMATCH [rdlist_a]) (Some 10) ''www.example.''
     None dns_rdatatype_a None None None world0 = Aborts"
    using t
    by (simp add: find_db_def require_ldapdb_def and_then_def world0_def store0_def INSIST_def
        answers_def)
  have full: "find_db True (answers ISC_R_SUCCESS [rdlist_a]) (Some 10) ''www.example.'' None
     dns_rdatatype_a None None None world0 =
     Returns (ISC_R_SUCCESS, Some 20, Some ''www.example.'', Some rdlist_a,
       world0\<lparr>trace := [Mem_get 20, Name_dup ''www.example.'', Name_dup ''www.example.''],
              nodes := [20 \<mapsto> new_node ''www.example.'' [rdlist_a]]\<rparr>)"
    using t
    by (simp add: find_db_def require_ldapdb_def and_then_def INSIST_def world0_def store0_def
        answers_def ldapdbnode_create_def isc_mem_get_def dns_name_dup_def emit_def
        memcpy_rdatalist_def deref_ldapdbnode_def find_select_def
        ldapdb_rdatalist_findrdatatype_def rdlist_a_def dns_name_dupwithoffsets_def new_node_def)
  from partial full show ?thesis by simp
qed

text \<open>
  Claim C4, amended. On a valid store, a partial-match answer of the resolver is
  handled by \<open>find\<close> exactly as a success with the same record-lists (same node,
  same selection by type and CNAME, same result) when \<open>INSIST\<close> is compiled out;
  when \<open>INSIST\<close> is compiled in, the call is aborted by the assertion that follows
  the resolver's answer.
\<close>

theorem find_partial_match:
  assumes store: "dbs w db = Some d" "common_impmagic d = LDAPDB_MAGIC"
  shows "(\<not> chk \<longrightarrow>
            find_db chk (x\<lparr>rdatalist_get_res := (DNS_R_PARTIALMATCH, rdl)\<rparr>) (Some db) name version t
              nodep foundname rdataset w =
            find_db chk (x\<lparr>rdatalist_get_res := (ISC_R_SUCCESS, rdl)\<rparr>) (Some db) name version t
              nodep foundname rdataset w)
       \<and> (chk \<longrightarrow>
            find_db chk (x\<lparr>rdatalist_get_res := (DNS_R_PARTIALMATCH, rdl)\<rparr>) (Some db) name version t
              nodep foundname rdataset w = Aborts)"
  using store
  by (auto simp add: find_db_def require_ldapdb_def and_then_def INSIST_def
      split: outcome.splits prod.splits)

text \<open>
  The same partial-match answer for \<open>www.example.\<close>: without the assertion \<open>find\<close>
  returns the A entry in a new node; with the assertion it is aborted.
\<close>

theorem find_partial_match_witness:
  "find_db False (answers DNS_R_PARTIALMATCH [rdlist_a]) (Some 10) ''www.example.'' None
     dns_rdatatype_a None None None world0 =
   Returns (ISC_R_SUCCESS, Some 20, Some ''www.example.'', Some rdlist_a,
     world0\<lparr>trace := [Mem_get 20, Name_dup ''www.example.'', Name_dup ''www.example.''],
            nodes := [20 \<mapsto> new_node ''www.example.'' [rdlist_a]]\<rparr>)
   \<and> find_db True (answers DNS_R_PARTIALMATCH [rdlist_a]) (Some 10) ''www.example.'' None
     dns_rdatatype_a None None None world0 = Aborts"
proof -
  have s: "dbs world0 10 = Some store0" "common_impmagic store0 = LDAPDB_MAGIC"
    by (simp_all add: world0_def store0_def)
  have t: "dns_rdatatype_a \<noteq> dns_rdatatype_any" "dns_rdatatype_a \<noteq> dns_rdatatype_cname"
    by (simp_all add: dns_rdatatype_a_def dns_rdatatype_any_def dns_rdatatype_cname_def)
  have ok: "find_db False (answers ISC_R_SUCCESS [rdlist_a]) (Some 10) ''www.example.'' None
     dns_rdatatype_a None None None world0 =
   Returns (ISC_R_SUCCESS, Some 20, Some ''www.example.'', Some rdlist_a,
     world0\<lparr>trace := [Mem_get 20, Name_dup ''www.example.'', Name_dup ''www.example.''],
            nodes := [20 \<mapsto> new_node ''www.example.'' [rdlist_a]]\<rparr>)"
    using t
    by (simp add: find_db_def require_ldapdb_def and_then_def INSIST_def world0_def store0_def
        answers_def ldapdbnode_create_def isc_mem_get_def dns_name_dup_def emit_def
        memcpy_rdatalist_def deref_ldapdbnode_def find_select_def
        ldapdb_rdatalist_findrdatatype_def rdlist_a_def dns_name_dupwithoffsets_def new_node_def)
  from find_partial_match [OF s, where chk = False and x = "answers ISC_R_SUCCESS [rdlist_a]"
      and rdl = "[rdlist_a]" and name = "''www.example.''" and version = None
      and t = dns_rdatatype_a and nodep = None and foundname = None and rdataset = None]
    find_partial_match [OF s, where chk = True and x = "answers ISC_R_SUCCESS [rdlist_a]"
      and rdl = "[rdlist_a]" and name = "''www.example.''" and version = None
      and t = dns_rdatatype_a and nodep = None and foundname = None and rdataset = None]
  show ?thesis
    using ok by (simp add: answers_def)
qed

subsection \<open>findrdataset\<close>

text \<open>
  Claim C10. For a valid node, \<open>covers = 0\<close> and the version absent or the
  sentinel, \<open>findrdataset\<close> returns, leaves the world as it was, and returns success
  if and only if the node's list has an entry of the requested type; on success
  the result set is bound to that entry (the first of that type). When there is
  no such entry, it returns the code of the type search (\<open>ISC_R_NOTFOUND\<close>) and
  the caller's result set is as it was, whether or not a CNAME entry is present.
\<close>

theorem findrdataset_exact_type_only:
  assumes node: "nodes w a = Some n" "magic n = LDAPDBNODE_MAGIC"
    and version: "version = None \<or> version = ldapdb_version"
  shows "\<exists>st rs. findrdataset db (Some a) version t 0 rdataset w = Returns (st, rs, w)
           \<and> (st = ISC_R_SUCCESS \<longleftrightarrow> (\<exists>r\<in>set (rdatalist n). rdtype r = t))
           \<and> (st = ISC_R_SUCCESS \<longrightarrow>
                (\<exists>r\<in>set (rdatalist n). rdtype r = t \<and> rs = Some r
                   \<and> List.find (\<lambda>e. rdtype e = t) (rdatalist n) = Some r))
           \<and> (st \<noteq> ISC_R_SUCCESS \<longrightarrow>
                st = fst (ldapdb_rdatalist_findrdatatype (rdatalist n) t) \<and> st = ISC_R_NOTFOUND
                \<and> rs = rdataset)"
proof (cases "\<exists>r\<in>set (rdatalist n). rdtype r = t")
  case True
  from find_first [of "rdatalist n" "\<lambda>r. rdtype r = t"] True
  obtain r where r: "r \<in> set (rdatalist n)" "rdtype r = t"
    "List.find (\<lambda>r. rdtype r = t) (rdatalist n) = Some r"
    by blast
  have "findrdataset db (Some a) version t 0 rdataset w = Returns (ISC_R_SUCCESS, Some r, w)"
    using node version r(3)
    by (auto simp add: findrdataset_def require_ldapdbnode_def and_then_def findrdatatype_Some)
  with r True show ?thesis by auto
next
  case False
  then have none: "List.find (\<lambda>r. rdtype r = t) (rdatalist n) = None"
    by (simp add: find_absent)
  have "findrdataset db (Some a) version t 0 rdataset w = Returns (ISC_R_NOTFOUND, rdataset, w)"
    using node version none
    by (auto simp add: findrdataset_def require_ldapdbnode_def and_then_def findrdatatype_None)
  with False none show ?thesis by (auto simp add: findrdatatype_None)
qed

text \<open>
  The node of \<open>world1\<close> has a CNAME entry only: \<open>findrdataset\<close> finds the CNAME when
  asked for it and does not fall back to it when asked for A.
\<close>

theorem findrdataset_exact_type_only_witness:
  "findrdataset (Some 10) (Some 20) None dns_rdatatype_cname 0 None world1 =
     Returns (ISC_R_SUCCESS, Some rdlist_cname, world1)
   \<and> findrdataset (Some 10) (Some 20) None dns_rdatatype_a 0 None world1 =
     Returns (ISC_R_NOTFOUND, None, world1)"
proof -
  have n: "nodes world1 20 = Some (new_node ''alias.example.'' [rdlist_cname])"
    "magic (new_node ''alias.example.'' [rdlist_cname]) = LDAPDBNODE_MAGIC"
    by (simp_all add: world1_def new_node_def)
  have 1: "findrdataset (Some 10) (Some 20) None dns_rdatatype_cname 0 None world1 =
     Returns (ISC_R_SUCCESS, Some rdlist_cname, world1)"
    using findrdataset_exact_type_only [OF n, of None "Some 10" dns_rdatatype_cname None]
    by (auto simp add: new_node_def rdlist_cname_def)
  have 2: "findrdataset (Some 10) (Some 20) None dns_rdatatype_a 0 None world1 =
     Returns (ISC_R_NOTFOUND, None, world1)"
    using findrdataset_exact_type_only [OF n, of None "Some 10" dns_rdatatype_a None]
    by (auto simp add: new_node_def rdlist_cname_def dns_rdatatype_a_def dns_rdatatype_cname_def)
  from 1 2 show ?thesis by simp
qed

subsection \<open>findnode\<close>

text \<open>
  With \<open>INSIST\<close> compiled in, \<open>findnode\<close> without the create flag is aborted at line
  250 on a partial match; it does not return \<open>ISC_R_NOTFOUND\<close>.
\<close>

theorem findnode_partial_match_counterexample:
  "findnode True (answers DNS_R_PARTIALMATCH []) (Some 10) ''www.example.'' False None world0
     = Aborts"
  by (simp add: findnode_def require_ldapdb_def and_then_def world0_def store0_def INSIST_def
      answers_def)

text \<open>
  Claim C3, amended. When the resolver reports a partial match to \<open>findnode\<close>
  called without the create flag on a valid store, no node is returned: the call
  is aborted by the assertion after the resolver's answer when \<open>INSIST\<close> is
  compiled in; when it is compiled out, the call releases the record-lists and
  returns \<open>ISC_R_NOTFOUND\<close>, with \<open>*nodep\<close> as it was.
\<close>

theorem findnode_partial_match:
  assumes store: "dbs w db = Some d" "common_impmagic d = LDAPDB_MAGIC" "common_mctx d = Ptr m"
    and resolver: "rdatalist_get_res x = (DNS_R_PARTIALMATCH, rdl)"
  shows "findnode chk x (Some db) name False nodep w =
           (if chk then Aborts
            else Returns (ISC_R_NOTFOUND, nodep, w\<lparr>trace := trace w @ [Rdatalist_destroy rdl]\<rparr>))"
  using assms
  by (simp add: findnode_def require_ldapdb_def and_then_def INSIST_def
      ldapdb_rdatalist_destroy_def emit_def)

text \<open>
  Both builds on a partial match for \<open>www.example.\<close>.
\<close>

theorem findnode_partial_match_witness:
  "findnode False (answers DNS_R_PARTIALMATCH [rdlist_a]) (Some 10) ''www.example.'' False None
     world0 =
   Returns (ISC_R_NOTFOUND, None, world0\<lparr>trace := [Rdatalist_destroy [rdlist_a]]\<rparr>)
   \<and> findnode True (answers DNS_R_PARTIALMATCH [rdlist_a]) (Some 10) ''www.example.'' False None
     world0 = Aborts"
proof -
  have s: "dbs world0 10 = Some store0" "common_impmagic store0 = LDAPDB_MAGIC"
    "common_mctx store0 = Ptr 1"
    by (simp_all add: world0_def store0_def)
  have r: "rdatalist_get_res (answers DNS_R_PARTIALMATCH [rdlist_a]) =
      (DNS_R_PARTIALMATCH, [rdlist_a])"
    by (simp add: answers_def)
  from findnode_partial_match [OF s r, of False "''www.example.''" None]
    findnode_partial_match [OF s r, of True "''www.example.''" None]
  show ?thesis by (simp add: world0_def)
qed

text \<open>
  With the create flag, a partial match is not turned into a new node either:
  with \<open>INSIST\<close> compiled in the call is aborted.
\<close>

theorem findnode_create_counterexample:
  "findnode True (answers DNS_R_PARTIALMATCH []) (Some 10) ''new.example.'' True None world0
     = Aborts"
  by (simp add: findnode_def require_ldapdb_def and_then_def world0_def store0_def INSIST_def
      answers_def)

text \<open>
  Claim C9, amended. Take \<open>findnode\<close> with the create flag on a valid store. When
  the resolver reports a partial match and \<open>INSIST\<close> is compiled in, the call is
  aborted by the assertion of line 250. Otherwise (any answer but a partial
  match, or any answer at all when \<open>INSIST\<close> is compiled out): an out-of-memory
  answer is returned unchanged, with nothing allocated. Every other answer, not-found
  included, is dropped: when the node can be built, \<open>findnode\<close> returns success and
  the new node, which holds the list the resolver left; when the node cannot be
  built (no block, or the counter or the copy of the name fails), \<open>findnode\<close>
  returns that failure after releasing the block and the resolver's list.
\<close>

theorem findnode_create:
  assumes store: "dbs w db = Some d" "common_impmagic d = LDAPDB_MAGIC" "common_mctx d = Ptr m"
    and resolver: "rdatalist_get_res x = (res, rdl)"
  shows "(res = DNS_R_PARTIALMATCH \<and> chk \<longrightarrow>
            findnode chk x (Some db) name True nodep w = Aborts)
       \<and> (\<not> (res = DNS_R_PARTIALMATCH \<and> chk) \<and> res = ISC_R_NOMEMORY \<longrightarrow>
            findnode chk x (Some db) name True nodep w = Returns (ISC_R_NOMEMORY, nodep, w))
       \<and> (\<not> (res = DNS_R_PARTIALMATCH \<and> chk) \<and> res \<noteq> ISC_R_NOMEMORY \<longrightarrow>
            (\<forall>a. mem_get_res x = Some a \<and> refcount_init_res x = ISC_R_SUCCESS
                  \<and> name_dup_res x = ISC_R_SUCCESS \<longrightarrow>
               findnode chk x (Some db) name True nodep w =
                 Returns (ISC_R_SUCCESS, Some a,
                   w\<lparr>trace := trace w @ [Mem_get a, Name_dup name],
                     nodes := (nodes w)(a \<mapsto> new_node name rdl)\<rparr>))
          \<and> (mem_get_res x = None \<longrightarrow>
               findnode chk x (Some db) name True nodep w =
                 Returns (ISC_R_NOMEMORY, nodep, w\<lparr>trace := trace w @ [Rdatalist_destroy rdl]\<rparr>))
          \<and> (\<forall>a. mem_get_res x = Some a \<and> refcount_init_res x \<noteq> ISC_R_SUCCESS \<longrightarrow>
               findnode chk x (Some db) name True nodep w =
                 Returns (refcount_init_res x, nodep,
                   w\<lparr>trace := trace w @ [Mem_get a, Mem_put a, Rdatalist_destroy rdl]\<rparr>))
          \<and> (\<forall>a. mem_get_res x = Some a \<and> refcount_init_res x = ISC_R_SUCCESS
                  \<and> name_dup_res x \<noteq> ISC_R_SUCCESS \<longrightarrow>
               findnode chk x (Some db) name True nodep w =
                 Returns (name_dup_res x, nodep,
                   w\<lparr>trace := trace w @ [Mem_get a, Mem_put a, Rdatalist_destroy rdl]\<rparr>)))"
  using assms
  by (auto simp add: findnode_def require_ldapdb_def and_then_def INSIST_def
      ldapdbnode_create_def isc_mem_get_def isc_mem_put_def dns_name_dup_def
      memcpy_rdatalist_def new_node_def
      ldapdb_rdatalist_destroy_def emit_def)

text \<open>
  A name the resolver does not find gets a new, empty node; an out-of-memory
  answer is handed back; when there is no block for the node, \<open>findnode\<close> fails
  with \<open>ISC_R_NOMEMORY\<close> after releasing the resolver's list; and a partial match
  is aborted with the assertion and gets a node without it.
\<close>

theorem findnode_create_witness:
  "findnode True (answers ISC_R_NOTFOUND []) (Some 10) ''new.example.'' True None world0 =
     Returns (ISC_R_SUCCESS, Some 20,
       world0\<lparr>trace := [Mem_get 20, Name_dup ''new.example.''],
              nodes := [20 \<mapsto> new_node ''new.example.'' []]\<rparr>)
   \<and> findnode True (answers ISC_R_NOMEMORY []) (Some 10) ''new.example.'' True None world0 =
     Returns (ISC_R_NOMEMORY, None, world0)
   \<and> findnode True ((answers ISC_R_NOTFOUND [])\<lparr>mem_get_res := None\<rparr>) (Some 10)
       ''new.example.'' True None world0 =
     Returns (ISC_R_NOMEMORY, None, world0\<lparr>trace := [Rdatalist_destroy []]\<rparr>)
   \<and> findnode True (answers DNS_R_PARTIALMATCH [rdlist_a]) (Some 10) ''new.example.'' True None
       world0 = Aborts
   \<and> findnode False (answers DNS_R_PARTIALMATCH [rdlist_a]) (Some 10) ''new.example.'' True None
       world0 =
     Returns (ISC_R_SUCCESS, Some 20,
       world0\<lparr>trace := [Mem_get 20, Name_dup ''new.example.''],
              nodes := [20 \<mapsto> new_node ''new.example.'' [rdlist_a]]\<rparr>)"
proof -
  have s: "dbs world0 10 = Some store0" "common_impmagic store0 = LDAPDB_MAGIC"
    "common_mctx store0 = Ptr 1"
    by (simp_all add: world0_def store0_def)
  have r: "rdatalist_get_res (answers res []) = (res, [])" for res
    by (simp add: answers_def)
  have r': "rdatalist_get_res ((answers ISC_R_NOTFOUND [])\<lparr>mem_get_res := None\<rparr>) =
      (ISC_R_NOTFOUND, [])"
    by (simp add: answers_def)
  have p: "rdatalist_get_res (answers DNS_R_PARTIALMATCH [rdlist_a]) =
      (DNS_R_PARTIALMATCH, [rdlist_a])"
    by (simp add: answers_def)
  from findnode_create [OF s r, of ISC_R_NOTFOUND True "''new.example.''" None]
    findnode_create [OF s r, of ISC_R_NOMEMORY True "''new.example.''" None]
    findnode_create [OF s r', of True "''new.example.''" None]
    findnode_create [OF s p, of True "''new.example.''" None]
    findnode_create [OF s p, of False "''new.example.''" None]
  show ?thesis by (simp add: world0_def answers_def)
qed

subsection \<open>The single version\<close>

text \<open>
  Claim C7. On a valid store, \<open>currentversion\<close> and \<open>newversion\<close>, given an empty
  handle, both put the sentinel \<open>ldapdb_version\<close> into it and leave the world as it
  was (nothing is allocated); \<open>attachversion\<close>, given the sentinel, puts the sentinel
  into the target; \<open>closeversion\<close>, given a handle that holds the sentinel, sets it
  to NULL whatever the commit flag is.
\<close>

theorem single_version:
  assumes store: "dbs w db = Some d" "common_impmagic d = LDAPDB_MAGIC"
  shows "currentversion (Some db) (Some None) w = Returns (ldapdb_version, w)
       \<and> newversion (Some db) (Some None) w = Returns (ISC_R_SUCCESS, ldapdb_version, w)
       \<and> attachversion (Some db) ldapdb_version (Some None) w = Returns (ldapdb_version, w)
       \<and> closeversion (Some db) (Some ldapdb_version) commit w = Returns (None, w)"
  using store
  by (simp add: currentversion_def newversion_def attachversion_def closeversion_def
      require_ldapdb_def and_then_def)

theorem single_version_witness:
  "currentversion (Some 10) (Some None) world0 = Returns (Some dummy, world0)
   \<and> newversion (Some 10) (Some None) world0 = Returns (ISC_R_SUCCESS, Some dummy, world0)
   \<and> attachversion (Some 10) (Some dummy) (Some None) world0 = Returns (Some dummy, world0)
   \<and> closeversion (Some 10) (Some (Some dummy)) True world0 = Returns (None, world0)
   \<and> closeversion (Some 10) (Some (Some dummy)) False world0 = Returns (None, world0)"
proof -
  have s: "dbs world0 10 = Some store0" "common_impmagic store0 = LDAPDB_MAGIC"
    by (simp_all add: world0_def store0_def)
  from single_version [OF s, of True] single_version [OF s, of False]
  show ?thesis by (simp add: ldapdb_version_def)
qed

subsection \<open>The operations that are not implemented\<close>

text \<open>
  Claim C8. Each of the sixteen operations returns \<open>ISC_R_NOTIMPLEMENTED\<close> for
  every argument and in every world, and leaves the world and the caller's
  objects as they were.
\<close>

theorem not_implemented_stable:
  "findzonecut db name options now nodep foundname rdataset sigrdataset w =
     (ISC_R_NOTIMPLEMENTED, nodep, foundname, rdataset, sigrdataset, w)
   \<and> expirenode db node now w = (ISC_R_NOTIMPLEMENTED, w)
   \<and> createiterator db options iteratorp w = (ISC_R_NOTIMPLEMENTED, iteratorp, w)
   \<and> allrdatasets db node version now iteratorp w = (ISC_R_NOTIMPLEMENTED, iteratorp, w)
   \<and> addrdataset db node version now rdataset options addedrdataset w =
       (ISC_R_NOTIMPLEMENTED, rdataset, addedrdataset, w)
   \<and> subtractrdataset db node version rdataset options newrdataset w =
       (ISC_R_NOTIMPLEMENTED, rdataset, newrdataset, w)
   \<and> deleterdataset db node version t covers w = (ISC_R_NOTIMPLEMENTED, w)
   \<and> issecure db w = (ISC_R_NOTIMPLEMENTED, w)
   \<and> nodecount db w = (ISC_R_NOTIMPLEMENTED, w)
   \<and> ispersistent db w = (ISC_R_NOTIMPLEMENTED, w)
   \<and> isdnssec db w = (ISC_R_NOTIMPLEMENTED, w)
   \<and> getoriginnode db nodep w = (ISC_R_NOTIMPLEMENTED, nodep, w)
   \<and> getnsec3parameters db version hash flags iterations salt salt_len w =
       (ISC_R_NOTIMPLEMENTED, hash, flags, iterations, salt, salt_len, w)
   \<and> findnsec3node db name create nodep w = (ISC_R_NOTIMPLEMENTED, nodep, w)
   \<and> setsigningtime db rdataset resign w = (ISC_R_NOTIMPLEMENTED, rdataset, w)
   \<and> getsigningtime db rdataset foundname w = (ISC_R_NOTIMPLEMENTED, rdataset, foundname, w)"
  by (simp add: findzonecut_def expirenode_def createiterator_def allrdatasets_def
      addrdataset_def subtractrdataset_def deleterdataset_def issecure_def nodecount_def
      ispersistent_def isdnssec_def getoriginnode_def getnsec3parameters_def findnsec3node_def
      setsigningtime_def getsigningtime_def)

subsection \<open>Reference counts\<close>










text \<open>
  One more than the largest count is 0 in the counter, and the next call is
  aborted: the sequences considered stay within \<open>UINT_MAX\<close>.
\<close>

lemma store_ops_overflow:
  assumes "dbs w a = Some d" "common_impmagic d = LDAPDB_MAGIC" "refs d = 4294967295"
  shows "store_ops a [Attach, Detach] w = Aborts"
  using assms
  by (simp add: attach_def detach_def require_ldapdb_def and_then_def
      isc_refcount_increment_def isc_refcount_decrement_def)










subsection \<open>Creating a store\<close>

text \<open>
  When the instance manager does not know the instance, \<open>ldapdb_create\<close> returns
  the manager's code, \<open>*dbp\<close> stays NULL, and what it acquired (block, origin name,
  reference to the memory context, lock) is released again, the lock first, then
  the origin name, then the block and the reference. When every step succeeds,
  the new store has one reference.
\<close>

lemma ldapdb_create_unknown_instance:
  assumes "0 < argc" "argv \<noteq> []" "mem_get_res x = Some a"
    "name_dupwithoffsets_res x = ISC_R_SUCCESS" "mutex_init_res x = ISC_R_SUCCESS"
    "refcount_init_res x = ISC_R_SUCCESS" "manager_get_res x = (e, i)" "e \<noteq> ISC_R_SUCCESS"
  shows "ldapdb_create x (Ptr m) name dns_dbtype_zone dns_rdataclass_in argc argv (Some None) w =
     Returns (e, None,
       w\<lparr>trace := trace w @ [Mem_get a, Name_dup name, Mem_attach m, Mutex_init a,
                              Mutex_destroy a, Name_free name, Mem_put a, Mem_detach m]\<rparr>)"
  using assms
  by (cases argv)
    (simp_all add: ldapdb_create_def isc_mem_get_def dns_name_dupwithoffsets_def
      isc_mem_attach_def clean_lock_def clean_origin_def clean_ldapdb_def dns_name_free_def
      isc_mem_putanddetach_def and_then_def emit_def)

lemma ldapdb_create_ok:
  assumes "0 < argc" "argv \<noteq> []" "mem_get_res x = Some a"
    "name_dupwithoffsets_res x = ISC_R_SUCCESS" "mutex_init_res x = ISC_R_SUCCESS"
    "refcount_init_res x = ISC_R_SUCCESS" "manager_get_res x = (ISC_R_SUCCESS, i)"
  shows "ldapdb_create x (Ptr m) name dns_dbtype_zone dns_rdataclass_in argc argv (Some None) w =
     Returns (ISC_R_SUCCESS, Some a,
       w\<lparr>trace := trace w @ [Mem_get a, Name_dup name, Mem_attach m, Mutex_init a],
         dbs := (dbs w)(a \<mapsto>
           \<lparr>common_magic = DNS_DB_MAGIC, common_impmagic = LDAPDB_MAGIC,
            common_rdclass = dns_rdataclass_in, common_origin = name,
            common_mctx = Ptr m, refs = 1, ldap_db = i\<rparr>)\<rparr>)"
  using assms
  by (cases argv)
    (simp_all add: ldapdb_create_def isc_mem_get_def dns_name_dupwithoffsets_def
      isc_mem_attach_def and_then_def emit_def)

text \<open>
  Claim C5. The claim also covers the steps before the instance manager. When the
  copy of the origin name fails (line 730), the code jumps to \<open>clean_ldapdb\<close> and
  releases the block through \<open>ldapdb->common.mctx\<close>, a field that is assigned only
  at lines 735 and 736: the block is released through an indeterminate pointer,
  and the call has no defined result.
\<close>

theorem ldapdb_create_origin_failure:
  "ldapdb_create ((answers ISC_R_SUCCESS [])\<lparr>name_dupwithoffsets_res := ISC_R_NOMEMORY\<rparr>)
     (Ptr 1) ''example.'' dns_dbtype_zone dns_rdataclass_in 1 [''ldap''] (Some None) no_world
   = Undefined"
  by (simp add: ldapdb_create_def isc_mem_get_def dns_name_dupwithoffsets_def answers_def
      clean_ldapdb_def isc_mem_putanddetach_def and_then_def)

end
